theory Spec2Isabelle
  imports Complex_Main
begin

section \<open>The JavaScript values the helpers compute with\<close>

text \<open>
  The development embeds \<^verbatim>\<open>src/lib/helpers.js\<close>. Strings are \<^typ>\<open>string\<close>: byte
  sequences, read as UTF-8. Only the ASCII part of \<^verbatim>\<open>toLowerCase\<close> and of the white space
  that \<^verbatim>\<open>trim\<close>, \<^verbatim>\<open>Number\<close> and \<^verbatim>\<open>BigInt\<close> strip is modelled: the embedding is
  exact on ASCII text.
\<close>

subsection \<open>Strings\<close>

definition lower_char :: "char \<Rightarrow> char" where
  "lower_char c =
     (case map_of (zip ''ABCDEFGHIJKLMNOPQRSTUVWXYZ'' ''abcdefghijklmnopqrstuvwxyz'') c of
        None \<Rightarrow> c
      | Some d \<Rightarrow> d)"

definition toLowerCase :: "string \<Rightarrow> string" where
  "toLowerCase s = map lower_char s"

text \<open>White space of \<^verbatim>\<open>StrWhiteSpaceChar\<close> within ASCII: TAB, LF, VT, FF, CR, SP.\<close>

definition is_ws :: "char \<Rightarrow> bool" where
  "is_ws c = (c \<in> set [CHR 0x09, CHR 0x0A, CHR 0x0B, CHR 0x0C, CHR 0x0D, CHR 0x20])"

definition trim :: "string \<Rightarrow> string" where
  "trim s = rev (dropWhile is_ws (rev (dropWhile is_ws s)))"

text \<open>\<^verbatim>\<open>s.split(sep)\<close> for a one-character separator: never empty, \<^verbatim>\<open>"".split("/")\<close> is
  \<^verbatim>\<open>[""]\<close>.\<close>

fun split_on :: "char \<Rightarrow> string \<Rightarrow> string list" where
  "split_on sep [] = [[]]"
| "split_on sep (c # cs) =
     (if c = sep then [] # split_on sep cs
      else (case split_on sep cs of
              [] \<Rightarrow> [[c]]
            | w # ws \<Rightarrow> (c # w) # ws))"

fun join :: "string \<Rightarrow> string list \<Rightarrow> string" where
  "join sep [] = []"
| "join sep [w] = w"
| "join sep (w # v # ws) = w @ sep @ join sep (v # ws)"

subsection \<open>Digits and integer literals\<close>

text \<open>The value of a character as a digit, up to base 16.\<close>

definition digit_of :: "char \<Rightarrow> nat option" where
  "digit_of c =
     map_of (zip ''0123456789abcdefABCDEF''
                 [0, 1, 2, 3, 4, 5, 6, 7, 8, 9, 10, 11, 12, 13, 14, 15, 10, 11, 12, 13, 14, 15]) c"

definition digit_in :: "nat \<Rightarrow> char \<Rightarrow> nat option" where
  "digit_in b c =
     (case digit_of c of
        None \<Rightarrow> None
      | Some d \<Rightarrow> if d < b then Some d else None)"

definition is_digit :: "char \<Rightarrow> bool" where
  "is_digit c = (digit_in 10 c \<noteq> None)"

fun digits_val :: "nat \<Rightarrow> string \<Rightarrow> nat \<Rightarrow> nat option" where
  "digits_val b [] acc = Some acc"
| "digits_val b (c # cs) acc =
     (case digit_in b c of
        None \<Rightarrow> None
      | Some d \<Rightarrow> digits_val b cs (acc * b + d))"

text \<open>A non-empty run of digits of base \<open>b\<close>, and nothing else.\<close>

definition parse_digits :: "nat \<Rightarrow> string \<Rightarrow> nat option" where
  "parse_digits b s = (if s = [] then None else digits_val b s 0)"

text \<open>\<^verbatim>\<open>NonDecimalIntegerLiteral\<close>: \<^verbatim>\<open>0x\<close>, \<^verbatim>\<open>0o\<close>, \<^verbatim>\<open>0b\<close> in either case, unsigned.\<close>

definition nondecimal :: "string \<Rightarrow> nat option" where
  "nondecimal s =
     (case s of
        z # x # ds \<Rightarrow>
          if z \<noteq> CHR ''0'' then None
          else if x \<in> set ''xX'' then parse_digits 16 ds
          else if x \<in> set ''oO'' then parse_digits 8 ds
          else if x \<in> set ''bB'' then parse_digits 2 ds
          else None
      | _ \<Rightarrow> None)"

text \<open>\<^verbatim>\<open>SignedInteger\<close>: decimal digits with an optional sign.\<close>

definition signed_integer :: "string \<Rightarrow> int option" where
  "signed_integer s =
     (case s of
        [] \<Rightarrow> None
      | c # ds \<Rightarrow>
          if c = CHR ''-'' then map_option (\<lambda>n. - int n) (parse_digits 10 ds)
          else if c = CHR ''+'' then map_option int (parse_digits 10 ds)
          else map_option int (parse_digits 10 s))"

datatype js_error = SyntaxError | TypeError

subsection \<open>\<^verbatim>\<open>BigInt(string)\<close>\<close>

definition StringToBigInt :: "string \<Rightarrow> int option" where
  "StringToBigInt s =
     (let t = trim s in
      if t = [] then Some 0
      else (case nondecimal t of
              Some n \<Rightarrow> Some (int n)
            | None \<Rightarrow> signed_integer t))"

definition BigInt :: "string \<Rightarrow> js_error + int" where
  "BigInt s = (case StringToBigInt s of None \<Rightarrow> Inl SyntaxError | Some n \<Rightarrow> Inr n)"

subsection \<open>\<^verbatim>\<open>Number(string)\<close>\<close>

text \<open>
  A number is NaN, an infinity, or finite. A finite number carries the mathematical value
  of its literal; the rounding of that value to a binary64 is not modelled (no statement
  below depends on it), nor is the sign of zero.
\<close>

datatype jsnumber = NaN | PosInfinity | NegInfinity | Finite rat

definition scale10 :: "rat \<Rightarrow> int \<Rightarrow> rat" where
  "scale10 m e = (if 0 \<le> e then m * 10 ^ nat e else m / 10 ^ nat (- e))"

text \<open>The part of a decimal literal after its digits and fraction: nothing, or an
  \<^verbatim>\<open>ExponentPart\<close>.\<close>

definition exponent_part :: "string \<Rightarrow> int option" where
  "exponent_part s =
     (case s of
        [] \<Rightarrow> Some 0
      | c # r \<Rightarrow> if c \<in> set ''eE'' then signed_integer r else None)"

text \<open>\<^verbatim>\<open>StrUnsignedDecimalLiteral\<close> but \<^verbatim>\<open>Infinity\<close>: digits, an optional point and
  fraction, an optional exponent, with a digit before or after the point.\<close>

definition unsigned_decimal :: "string \<Rightarrow> rat option" where
  "unsigned_decimal s =
     (let ip = takeWhile is_digit s;
          r1 = dropWhile is_digit s;
          has_dot = (r1 \<noteq> [] \<and> hd r1 = CHR ''.'');
          fp = (if has_dot then takeWhile is_digit (tl r1) else []);
          r2 = (if has_dot then dropWhile is_digit (tl r1) else r1)
      in if ip = [] \<and> fp = [] then None
         else (case (digits_val 10 (ip @ fp) 0, exponent_part r2) of
                 (Some m, Some e) \<Rightarrow> Some (scale10 (of_nat m) (e - int (length fp)))
               | _ \<Rightarrow> None))"

definition StringToNumber :: "string \<Rightarrow> jsnumber" where
  "StringToNumber s =
     (let t = trim s in
      if t = [] then Finite 0
      else (case nondecimal t of
              Some n \<Rightarrow> Finite (of_nat n)
            | None \<Rightarrow>
                (let neg = (hd t = CHR ''-'');
                     u = (if hd t = CHR ''-'' \<or> hd t = CHR ''+'' then tl t else t)
                 in if u = ''Infinity'' then (if neg then NegInfinity else PosInfinity)
                    else (case unsigned_decimal u of
                            None \<Rightarrow> NaN
                          | Some v \<Rightarrow> Finite (if neg then - v else v)))))"

subsection \<open>Objects\<close>

text \<open>
  An object is the list of its own properties in the order \<^verbatim>\<open>Object.keys\<close> and
  \<^verbatim>\<open>for ... in\<close> enumerate them: array indices first, ascending, then the other names in
  the order they were created. Property names are ordinary names (the inherited accessor
  \<^verbatim>\<open>__proto__\<close> is not modelled).
\<close>

type_synonym 'v obj = "(string \<times> 'v) list"

text \<open>A canonical array index: a decimal numeral without leading zero, below \<open>2^32 - 1\<close>.\<close>

definition array_index :: "string \<Rightarrow> nat option" where
  "array_index k =
     (case parse_digits 10 k of
        None \<Rightarrow> None
      | Some n \<Rightarrow> if (k = ''0'' \<or> hd k \<noteq> CHR ''0'') \<and> n < 4294967295 then Some n else None)"

fun obj_insert :: "string \<Rightarrow> 'v \<Rightarrow> 'v obj \<Rightarrow> 'v obj" where
  "obj_insert k v [] = [(k, v)]"
| "obj_insert k v ((k', v') # kvs) =
     (case array_index k of
        None \<Rightarrow> (k', v') # obj_insert k v kvs
      | Some n \<Rightarrow>
          (case array_index k' of
             None \<Rightarrow> (k, v) # (k', v') # kvs
           | Some n' \<Rightarrow> if n < n' then (k, v) # (k', v') # kvs else (k', v') # obj_insert k v kvs))"

fun obj_update :: "string \<Rightarrow> 'v \<Rightarrow> 'v obj \<Rightarrow> 'v obj" where
  "obj_update k v [] = []"
| "obj_update k v ((k', v') # kvs) =
     (if k' = k then (k, v) # kvs else (k', v') # obj_update k v kvs)"

text \<open>\<^verbatim>\<open>o[k] = v\<close>: an existing property keeps its place, a new one is created.\<close>

definition obj_set :: "string \<Rightarrow> 'v \<Rightarrow> 'v obj \<Rightarrow> 'v obj" where
  "obj_set k v ob = (if map_of ob k = None then obj_insert k v ob else obj_update k v ob)"

text \<open>\<^verbatim>\<open>o[k]\<close> is \<^term>\<open>map_of ob k\<close>, \<^const>\<open>None\<close> standing for \<^verbatim>\<open>undefined\<close>;
  \<^verbatim>\<open>Object.keys(o)\<close> is \<^term>\<open>map fst ob\<close>.\<close>

datatype jsval =
    JNull
  | JBool bool
  | JNumber jsnumber
  | JBigInt int
  | JString string
  | JArray "jsval list"
  | JObject "(string \<times> jsval) list"

subsection \<open>\<^verbatim>\<open>JSON.parse\<close>\<close>

text \<open>A code point written \<^verbatim>\<open>\uXXXX\<close>, as UTF-8 (the halves of a surrogate pair are not
  combined).\<close>

definition utf8 :: "nat \<Rightarrow> string" where
  "utf8 cp =
     (if cp < 128 then [char_of cp]
      else if cp < 2048 then [char_of (192 + cp div 64), char_of (128 + cp mod 64)]
      else [char_of (224 + cp div 4096), char_of (128 + (cp div 64) mod 64), char_of (128 + cp mod 64)])"

text \<open>The characters after a string's opening quote: its content and the number of
  characters read, closing quote included. A raw control character, an unknown escape
  and a missing closing quote are syntax errors.\<close>

fun lex_string :: "string \<Rightarrow> (string \<times> nat) option" where
  "lex_string [] = None"
| "lex_string (c # cs) =
     (if c = CHR 0x22 then Some ([], 1)
      else if c = CHR 0x5C then
        (case cs of
           [] \<Rightarrow> None
         | e # r \<Rightarrow>
             if e = CHR ''u'' then
               (case (if length (take 4 r) = 4 then parse_digits 16 (take 4 r) else None) of
                  None \<Rightarrow> None
                | Some cp \<Rightarrow> map_option (\<lambda>(s, n). (utf8 cp @ s, n + 6)) (lex_string (drop 4 r)))
             else
               (case map_of (zip [CHR 0x22, CHR 0x5C, CHR ''/'', CHR ''b'', CHR ''f'', CHR ''n'', CHR ''r'', CHR ''t'']
                                 [CHR 0x22, CHR 0x5C, CHR ''/'', CHR 0x08, CHR 0x0C, CHR 0x0A, CHR 0x0D, CHR 0x09]) e of
                  None \<Rightarrow> None
                | Some d \<Rightarrow> map_option (\<lambda>(s, n). (d # s, n + 2)) (lex_string r)))
      else if (of_char c :: nat) < 32 then None
      else map_option (\<lambda>(s, n). (c # s, n + 1)) (lex_string cs))"

text \<open>A JSON number at the head of the text, and the number of characters read:
  an optional minus, an integer part without leading zero, an optional fraction with a
  digit, an optional exponent with a digit.\<close>

definition lex_number :: "string \<Rightarrow> (jsnumber \<times> nat) option" where
  "lex_number s =
     (let neg = (s \<noteq> [] \<and> hd s = CHR ''-'');
          s1 = (if neg then tl s else s);
          ip = takeWhile is_digit s1;
          s2 = dropWhile is_digit s1;
          has_dot = (s2 \<noteq> [] \<and> hd s2 = CHR ''.'');
          fp = (if has_dot then takeWhile is_digit (tl s2) else []);
          s3 = (if has_dot then dropWhile is_digit (tl s2) else s2);
          has_exp = (s3 \<noteq> [] \<and> hd s3 \<in> set ''eE'');
          sg = (if has_exp \<and> tl s3 \<noteq> [] \<and> hd (tl s3) \<in> set ''+-'' then [hd (tl s3)] else []);
          ed = (if has_exp then takeWhile is_digit (drop (length sg) (tl s3)) else []);
          s4 = (if has_exp then dropWhile is_digit (drop (length sg) (tl s3)) else s3)
      in if ip = [] \<or> (1 < length ip \<and> hd ip = CHR ''0'') \<or> (has_dot \<and> fp = []) \<or> (has_exp \<and> ed = [])
         then None
         else (case (digits_val 10 (ip @ fp) 0, if has_exp then signed_integer (sg @ ed) else Some 0) of
                 (Some m, Some e) \<Rightarrow>
                   Some (Finite ((if neg then - 1 else 1) * scale10 (of_nat m) (e - int (length fp))),
                         length s - length s4)
               | _ \<Rightarrow> None))"

datatype tok = TLBRACE | TRBRACE | TLBRACK | TRBRACK | TCOLON | TCOMMA | TVAL jsval

text \<open>JSON white space is SP, TAB, LF, CR.\<close>

fun lex :: "string \<Rightarrow> tok list option" where
  "lex [] = Some []"
| "lex (c # cs) =
     (if c \<in> set [CHR 0x20, CHR 0x09, CHR 0x0A, CHR 0x0D] then lex cs
      else if c = CHR ''{'' then map_option ((#) TLBRACE) (lex cs)
      else if c = CHR ''}'' then map_option ((#) TRBRACE) (lex cs)
      else if c = CHR ''['' then map_option ((#) TLBRACK) (lex cs)
      else if c = CHR '']'' then map_option ((#) TRBRACK) (lex cs)
      else if c = CHR '':'' then map_option ((#) TCOLON) (lex cs)
      else if c = CHR '','' then map_option ((#) TCOMMA) (lex cs)
      else if c = CHR 0x22 then
        (case lex_string cs of
           None \<Rightarrow> None
         | Some (s, n) \<Rightarrow> map_option ((#) (TVAL (JString s))) (lex (drop n cs)))
      else if c = CHR ''-'' \<or> is_digit c then
        (case lex_number (c # cs) of
           None \<Rightarrow> None
         | Some (x, n) \<Rightarrow> map_option ((#) (TVAL (JNumber x))) (lex (drop (n - 1) cs)))
      else if take 4 (c # cs) = ''true'' then map_option ((#) (TVAL (JBool True))) (lex (drop 3 cs))
      else if take 5 (c # cs) = ''false'' then map_option ((#) (TVAL (JBool False))) (lex (drop 4 cs))
      else if take 4 (c # cs) = ''null'' then map_option ((#) (TVAL JNull)) (lex (drop 3 cs))
      else None)"

text \<open>
  The grammar over tokens, as a machine with a stack of the open arrays and objects.
  The mode says what may come next.
\<close>

datatype frame = FArr "jsval list" | FObj "jsval obj" "string option"

datatype pmode =
    MValue      \<comment> \<open>a value\<close>
  | MFirstElem  \<comment> \<open>just after an opening bracket: a value or the closing bracket\<close>
  | MFirstKey   \<comment> \<open>just after an opening brace: a key or the closing brace\<close>
  | MKey        \<comment> \<open>after a comma in an object: a key\<close>
  | MColon      \<comment> \<open>after a key: the colon\<close>
  | MAfter      \<comment> \<open>after a value in an array or object: a comma or the closing token\<close>
  | MDone jsval \<comment> \<open>the text's value is complete: nothing may follow\<close>

fun complete :: "jsval \<Rightarrow> frame list \<Rightarrow> (pmode \<times> frame list) option" where
  "complete v [] = Some (MDone v, [])"
| "complete v (FArr xs # st) = Some (MAfter, FArr (xs @ [v]) # st)"
| "complete v (FObj ms (Some k) # st) = Some (MAfter, FObj (obj_set k v ms) None # st)"
| "complete v (FObj ms None # st) = None"

text \<open>The start of a value: a scalar, or an opening bracket or brace.\<close>

definition value_start :: "tok \<Rightarrow> frame list \<Rightarrow> (pmode \<times> frame list) option" where
  "value_start t st =
     (case t of
        TVAL v \<Rightarrow> complete v st
      | TLBRACK \<Rightarrow> Some (MFirstElem, FArr [] # st)
      | TLBRACE \<Rightarrow> Some (MFirstKey, FObj [] None # st)
      | _ \<Rightarrow> None)"

definition close_array :: "frame list \<Rightarrow> (pmode \<times> frame list) option" where
  "close_array st = (case st of FArr xs # st' \<Rightarrow> complete (JArray xs) st' | _ \<Rightarrow> None)"

definition close_object :: "frame list \<Rightarrow> (pmode \<times> frame list) option" where
  "close_object st = (case st of FObj ms pending # st' \<Rightarrow> complete (JObject ms) st' | _ \<Rightarrow> None)"

definition key_tok :: "tok \<Rightarrow> frame list \<Rightarrow> (pmode \<times> frame list) option" where
  "key_tok t st =
     (case t of
        TVAL v \<Rightarrow>
          (case v of
             JString k \<Rightarrow>
               (case st of
                  FObj ms pending # st' \<Rightarrow> Some (MColon, FObj ms (Some k) # st')
                | _ \<Rightarrow> None)
           | _ \<Rightarrow> None)
      | _ \<Rightarrow> None)"

fun json_step :: "tok \<Rightarrow> pmode \<Rightarrow> frame list \<Rightarrow> (pmode \<times> frame list) option" where
  "json_step t MValue st = value_start t st"
| "json_step t MFirstElem st = (if t = TRBRACK then close_array st else value_start t st)"
| "json_step t MFirstKey st = (if t = TRBRACE then close_object st else key_tok t st)"
| "json_step t MKey st = key_tok t st"
| "json_step t MColon st = (if t = TCOLON then Some (MValue, st) else None)"
| "json_step t MAfter st =
     (case t of
        TCOMMA \<Rightarrow>
          (case st of
             [] \<Rightarrow> None
           | FArr xs # st' \<Rightarrow> Some (MValue, st)
           | FObj ms pending # st' \<Rightarrow> Some (MKey, st))
      | TRBRACK \<Rightarrow> close_array st
      | TRBRACE \<Rightarrow> close_object st
      | _ \<Rightarrow> None)"
| "json_step t (MDone v) st = None"

fun json_run :: "tok list \<Rightarrow> pmode \<times> frame list \<Rightarrow> (pmode \<times> frame list) option" where
  "json_run [] s = Some s"
| "json_run (t # ts) (m, st) = (case json_step t m st of None \<Rightarrow> None | Some s' \<Rightarrow> json_run ts s')"

definition JSON_parse :: "string \<Rightarrow> js_error + jsval" where
  "JSON_parse s =
     (case lex s of
        None \<Rightarrow> Inl SyntaxError
      | Some ts \<Rightarrow>
          (case json_run ts (MValue, []) of
             Some (MDone v, st) \<Rightarrow> Inr v
           | _ \<Rightarrow> Inl SyntaxError))"

section \<open>Row materialization: \<^verbatim>\<open>addDataType\<close>\<close>

definition numeric_types :: "string list" where
  "numeric_types = [''integer'', ''tinyint'', ''smallint'', ''int'', ''float'', ''double'']"

text \<open>The \<^verbatim>\<open>switch (dataTypes[key])\<close> of a non-empty cell; \<open>ty\<close> is \<^verbatim>\<open>dataTypes[key]\<close>,
  \<^const>\<open>None\<close> when the schema has no such column. \<^verbatim>\<open>JSON.parse\<close> and \<^verbatim>\<open>BigInt\<close> may
  throw, \<^verbatim>\<open>Number\<close> does not.\<close>

definition coerce :: "string option \<Rightarrow> string \<Rightarrow> js_error + jsval" where
  "coerce ty v =
     (if ty = Some ''varchar'' then Inr (JString v)
      else if ty = Some ''boolean'' then JSON_parse (toLowerCase v)
      else if ty = Some ''bigint'' then
        (case BigInt v of Inl e \<Rightarrow> Inl e | Inr n \<Rightarrow> Inr (JBigInt n))
      else if ty \<in> set (map Some numeric_types) then Inr (JNumber (StringToNumber v))
      else Inr (JString v))"

text \<open>The \<^verbatim>\<open>for (const key in input)\<close> loop; \<open>updated\<close> is
  \<^verbatim>\<open>updatedObjectWithDataType\<close>. A cell is a string, so \<^verbatim>\<open>!input[key]\<close> holds of the
  empty string only. A throw leaves the loop and the function.\<close>

fun addDataType_loop :: "string obj \<Rightarrow> string obj \<Rightarrow> jsval obj \<Rightarrow> js_error + jsval obj" where
  "addDataType_loop [] dataTypes updated = Inr updated"
| "addDataType_loop ((key, v) # rest) dataTypes updated =
     (if v = [] then addDataType_loop rest dataTypes (obj_set key JNull updated)
      else (case coerce (map_of dataTypes key) v of
              Inl e \<Rightarrow> Inl e
            | Inr tv \<Rightarrow> addDataType_loop rest dataTypes (obj_set key tv updated)))"

definition addDataType :: "string obj \<Rightarrow> string obj \<Rightarrow> js_error + jsval obj" where
  "addDataType input dataTypes = addDataType_loop input dataTypes []"

section \<open>The engine, the store and promises\<close>

text \<open>A fault of the SDK: the error object a \<^verbatim>\<open>send\<close> throws, with its \<^verbatim>\<open>code\<close>
  (\<^const>\<open>None\<close> when the object has none).\<close>

datatype sdk_error = SdkError (err_code: "string option") (err_message: string)

text \<open>What \<^verbatim>\<open>await client.send(command)\<close> gives: a throw or the output.\<close>

type_synonym 'a answer = "sdk_error + 'a"

text \<open>A cell of a structured row: its \<^verbatim>\<open>VarCharValue\<close>, when it has the property.\<close>

type_synonym datum = "string option"

text \<open>The output of \<^verbatim>\<open>GetQueryResults\<close>: \<^verbatim>\<open>ResultSet.Rows\<close> (each row its
  \<^verbatim>\<open>Data\<close>), \<^verbatim>\<open>ResultSet.ResultSetMetadata.ColumnInfo\<close> (name and type of each column)
  and \<^verbatim>\<open>NextToken\<close>.\<close>

record query_results =
  Rows :: "datum list list"
  ColumnInfo :: "(string \<times> string) list"
  NextToken :: "string option"

text \<open>The \<^verbatim>\<open>QueryExecution.Status\<close> of a \<^verbatim>\<open>GetQueryExecution\<close> output.\<close>

record execution_status =
  State :: string
  StateChangeReason :: "string option"

datatype request =
    StartQueryExecution
  | GetQueryExecution
  | GetQueryResults nat "string option"  \<comment> \<open>\<^verbatim>\<open>MaxResults\<close>, \<^verbatim>\<open>NextToken\<close>\<close>
  | GetObject "string option" string     \<comment> \<open>\<^verbatim>\<open>Bucket\<close>, \<^verbatim>\<open>Key\<close>\<close>

text \<open>What a run does that its caller can observe from outside: the commands it sends and
  the timers it sets, in order.\<close>

datatype event = Send request | Wait nat

text \<open>What \<^verbatim>\<open>reject\<close> is called with, or what an \<^verbatim>\<open>async\<close> function throws.\<close>

datatype rejection = Fault sdk_error | Reason "string option" | Thrown js_error

text \<open>The state of a promise when nothing more happens: \<open>Pending\<close> is a promise that
  has not settled (the engine's answers ran out, or nothing will ever settle it).\<close>

datatype ('e, 'a) settled = Resolved 'a | Rejected 'e | Pending

text \<open>The result context the poller and the retriever share: \<^verbatim>\<open>context.s3Metadata\<close> is
  \<^verbatim>\<open>undefined\<close> or the promise of a \<^verbatim>\<open>GetQueryResults\<close> output.\<close>

record ctx =
  s3Metadata :: "query_results answer option"

section \<open>\<^verbatim>\<open>isCommonAthenaError\<close> and \<^verbatim>\<open>startQueryExecution\<close>\<close>

definition isCommonAthenaError :: "string option \<Rightarrow> bool" where
  "isCommonAthenaError err =
     (if err = Some ''TooManyRequestsException'' \<or>
         err = Some ''ThrottlingException'' \<or>
         err = Some ''NetworkingError'' \<or>
         err = Some ''UnknownEndpoint''
      then True else False)"

text \<open>
  The engine's answers to the successive \<^verbatim>\<open>StartQueryExecution\<close> commands are a list (an
  answer carries its \<^verbatim>\<open>QueryExecutionId\<close>); the run is \<open>Pending\<close> when the list ends
  before the promise settles.
\<close>

fun startQueryExecutionRecursively :: "string answer list \<Rightarrow> event list \<times> (sdk_error, string) settled" where
  "startQueryExecutionRecursively [] = ([Send StartQueryExecution], Pending)"
| "startQueryExecutionRecursively (Inr QueryExecutionId # answers) =
     ([Send StartQueryExecution], Resolved QueryExecutionId)"
| "startQueryExecutionRecursively (Inl err # answers) =
     (if isCommonAthenaError (err_code err)
      then (case startQueryExecutionRecursively answers of
              (events, result) \<Rightarrow> (Send StartQueryExecution # Wait 2000 # events, result))
      else ([Send StartQueryExecution], Rejected err))"

definition startQueryExecution :: "string answer list \<Rightarrow> event list \<times> (sdk_error, string) settled" where
  "startQueryExecution answers = startQueryExecutionRecursively answers"

section \<open>\<^verbatim>\<open>checkIfExecutionCompleted\<close>\<close>

text \<open>A run of the poller: its events, the state of its promise, the last value of its
  variable \<^verbatim>\<open>retry\<close>, and the result context it leaves.\<close>

record poll_run =
  events :: "event list"
  result :: "(rejection, execution_status) settled"
  retry_after :: nat
  ctx_after :: ctx

text \<open>
  \<open>config_retry\<close> is \<^verbatim>\<open>config.retry\<close>, \<open>metadata\<close> the engine's answer to the
  one-row \<^verbatim>\<open>GetQueryResults\<close> sent on success, \<open>retry\<close> the variable, \<open>c\<close> the result
  context, and the list the engine's answers to the successive \<^verbatim>\<open>GetQueryExecution\<close>
  commands.
\<close>

fun keepCheckingRecursively ::
  "nat \<Rightarrow> query_results answer \<Rightarrow> nat \<Rightarrow> ctx \<Rightarrow> execution_status answer list \<Rightarrow> poll_run" where
  "keepCheckingRecursively config_retry metadata retry c [] =
     \<lparr>events = [Send GetQueryExecution], result = Pending, retry_after = retry, ctx_after = c\<rparr>"
| "keepCheckingRecursively config_retry metadata retry c (Inr status # answers) =
     (if State status = ''SUCCEEDED'' then
        \<lparr>events = [Send GetQueryExecution, Send (GetQueryResults 1 None)],
         result = Resolved status,
         retry_after = config_retry,
         ctx_after = c\<lparr>s3Metadata := Some metadata\<rparr>\<rparr>
      else if State status = ''FAILED'' then
        \<lparr>events = [Send GetQueryExecution],
         result = Rejected (Reason (StateChangeReason status)),
         retry_after = retry,
         ctx_after = c\<rparr>
      else
        (let r = keepCheckingRecursively config_retry metadata retry c answers
         in r\<lparr>events := Send GetQueryExecution # Wait retry # events r\<rparr>))"
| "keepCheckingRecursively config_retry metadata retry c (Inl err # answers) =
     (if isCommonAthenaError (err_code err) then
        (let r = keepCheckingRecursively config_retry metadata 2000 c answers
         in r\<lparr>events := Send GetQueryExecution # Wait 2000 # events r\<rparr>)
      else
        \<lparr>events = [Send GetQueryExecution],
         result = Rejected (Fault err),
         retry_after = retry,
         ctx_after = c\<rparr>)"

definition checkIfExecutionCompleted ::
  "nat \<Rightarrow> query_results answer \<Rightarrow> ctx \<Rightarrow> execution_status answer list \<Rightarrow> poll_run" where
  "checkIfExecutionCompleted config_retry metadata c answers =
     keepCheckingRecursively config_retry metadata config_retry c answers"

text \<open>The timers of a run.\<close>

fun waits :: "event list \<Rightarrow> nat list" where
  "waits [] = []"
| "waits (Wait n # es) = n # waits es"
| "waits (Send r # es) = waits es"

text \<open>The commands of a run.\<close>

fun sends :: "event list \<Rightarrow> request list" where
  "sends [] = []"
| "sends (Send r # es) = r # sends es"
| "sends (Wait n # es) = sends es"

section \<open>\<^verbatim>\<open>getQueryResultsFromS3\<close> and the clean-up functions\<close>

text \<open>
  \<^verbatim>\<open>getDataTypes\<close>: the \<^verbatim>\<open>while (columnInfoArrayLength--)\<close> loop stores the columns from
  the last to the first. The executor is an \<^verbatim>\<open>async\<close> function: when
  \<^verbatim>\<open>context.s3Metadata\<close> is \<^verbatim>\<open>undefined\<close> or a rejected promise, the throw is lost in
  the executor's own promise and the promise returned never settles.
\<close>

fun columnInfoObject_loop :: "(string \<times> string) list \<Rightarrow> string obj \<Rightarrow> string obj" where
  "columnInfoObject_loop [] columnInfoObject = columnInfoObject"
| "columnInfoObject_loop ((name, ty) # columns) columnInfoObject =
     columnInfoObject_loop columns (obj_set name ty columnInfoObject)"

definition getDataTypes :: "ctx \<Rightarrow> (rejection, string obj) settled" where
  "getDataTypes c =
     (case s3Metadata c of
        Some (Inr metadata) \<Rightarrow> Resolved (columnInfoObject_loop (rev (ColumnInfo metadata)) [])
      | _ \<Rightarrow> Pending)"

text \<open>\<^verbatim>\<open>columnNames[j]\<close> as a property name: \<^verbatim>\<open>undefined\<close> past the end of the array.\<close>

definition columnName :: "string list \<Rightarrow> nat \<Rightarrow> string" where
  "columnName columnNames j = (if j < length columnNames then columnNames ! j else ''undefined'')"

text \<open>The inner loop of \<^verbatim>\<open>cleanUpPaginatedDML\<close> over the cells of one row, from \<open>j\<close> on.\<close>

fun rowObject_loop :: "string list \<Rightarrow> nat \<Rightarrow> datum list \<Rightarrow> string obj \<Rightarrow> string obj" where
  "rowObject_loop columnNames j [] rowObject = rowObject"
| "rowObject_loop columnNames j (d # ds) rowObject =
     rowObject_loop columnNames (Suc j) ds
       (case d of
          None \<Rightarrow> rowObject
        | Some VarCharValue \<Rightarrow> obj_set (columnName columnNames j) VarCharValue rowObject)"

text \<open>The outer loop over the rows that are left.\<close>

fun formattedArray_loop ::
  "string list \<Rightarrow> string obj \<Rightarrow> datum list list \<Rightarrow> jsval obj list \<Rightarrow> js_error + jsval obj list" where
  "formattedArray_loop columnNames dataTypes [] formattedArray = Inr formattedArray"
| "formattedArray_loop columnNames dataTypes (row # rows) formattedArray =
     (case addDataType (rowObject_loop columnNames 0 row []) dataTypes of
        Inl e \<Rightarrow> Inl e
      | Inr typed \<Rightarrow> formattedArray_loop columnNames dataTypes rows (formattedArray @ [typed]))"

definition cleanUpPaginatedDML :: "query_results \<Rightarrow> nat \<Rightarrow> ctx \<Rightarrow> (rejection, jsval obj list) settled" where
  "cleanUpPaginatedDML queryResults paginationFactor c =
     (case getDataTypes c of
        Resolved dataTypes \<Rightarrow>
          (case formattedArray_loop (rev (map fst dataTypes)) dataTypes
                  (drop paginationFactor (Rows queryResults)) [] of
             Inl e \<Rightarrow> Rejected (Thrown e)
           | Inr formattedArray \<Rightarrow> Resolved formattedArray)
      | Rejected e \<Rightarrow> Rejected e
      | Pending \<Rightarrow> Pending)"

text \<open>
  The collaborators of a retrieval: the engine's answer to a \<^verbatim>\<open>GetQueryResults\<close> command
  (by \<^verbatim>\<open>MaxResults\<close> and \<^verbatim>\<open>NextToken\<close>), the store's answer to a \<^verbatim>\<open>GetObject\<close> command
  (the body, by \<^verbatim>\<open>Bucket\<close> and \<^verbatim>\<open>Key\<close>), the lines \<^verbatim>\<open>readline\<close> reads from a body, and
  the row objects \<^verbatim>\<open>csvtojson\<close> emits for it (by \<^verbatim>\<open>ignoreEmpty\<close>).
\<close>

record env =
  athena_GetQueryResults :: "nat \<Rightarrow> string option \<Rightarrow> query_results answer"
  s3_GetObject :: "string option \<Rightarrow> string \<Rightarrow> string answer"
  readline :: "string \<Rightarrow> string list"
  csvtojson :: "bool \<Rightarrow> string \<Rightarrow> string obj list"

definition getRawResultsFromS3 :: "env \<Rightarrow> string \<Rightarrow> string list" where
  "getRawResultsFromS3 E input = map trim (readline E input)"

text \<open>All rows of \<^verbatim>\<open>cleanUpDML\<close>, each typed as it is emitted.\<close>

fun cleanJson_loop :: "string obj \<Rightarrow> string obj list \<Rightarrow> jsval obj list \<Rightarrow> js_error + jsval obj list" where
  "cleanJson_loop dataTypes [] cleanJson = Inr cleanJson"
| "cleanJson_loop dataTypes (data # later) cleanJson =
     (case addDataType data dataTypes of
        Inl e \<Rightarrow> Inl e
      | Inr typed \<Rightarrow> cleanJson_loop dataTypes later (cleanJson @ [typed]))"

text \<open>
  \<^verbatim>\<open>cleanUpDML\<close>: a throw of \<^verbatim>\<open>addDataType\<close> happens inside the stream's \<^verbatim>\<open>data\<close>
  listener, outside every promise of this file. The model takes the stream to stop there,
  so that the \<^verbatim>\<open>finish\<close> listener never calls \<^verbatim>\<open>resolve\<close>.
\<close>

definition cleanUpDML :: "env \<Rightarrow> string \<Rightarrow> bool \<Rightarrow> ctx \<Rightarrow> (rejection, jsval obj list) settled" where
  "cleanUpDML E input ignoreEmpty c =
     (case getDataTypes c of
        Resolved dataTypes \<Rightarrow>
          (case cleanJson_loop dataTypes (csvtojson E ignoreEmpty input) [] of
             Inl e \<Rightarrow> Pending
           | Inr cleanJson \<Rightarrow> Resolved cleanJson)
      | Rejected e \<Rightarrow> Rejected e
      | Pending \<Rightarrow> Pending)"

text \<open>One line of \<^verbatim>\<open>cleanUpNonDML\<close>: the objects it pushes. \<^verbatim>\<open>line.indexOf("\t") > 0\<close>
  holds when the line has a tab that is not its first character.\<close>

definition cleanUpNonDML_line :: "string \<Rightarrow> string obj list" where
  "cleanUpNonDML_line line =
     (if CHR 0x09 \<in> set line \<and> hd line \<noteq> CHR 0x09 then
        [obj_set (trim (split_on (CHR 0x09) line ! 0)) (trim (split_on (CHR 0x09) line ! 1)) []]
      else if trim line \<noteq> [] then [[(''row'', trim line)]]
      else [])"

definition cleanUpNonDML :: "env \<Rightarrow> string \<Rightarrow> string obj list" where
  "cleanUpNonDML E input = concat (map cleanUpNonDML_line (readline E input))"

text \<open>\<^verbatim>\<open>params.config\<close>, the fields the function reads; \<open>pagination\<close> is \<open>0\<close> when
  the caller gave none (both are falsy).\<close>

record config =
  pagination :: nat
  cfg_NextToken :: "string option"
  formatJson :: bool
  includeMetadata :: bool
  ignoreEmpty :: bool

record params =
  s3Output :: string
  statementType :: string
  config :: config

text \<open>\<^verbatim>\<open>s3Params\<close>: \<^verbatim>\<open>Bucket\<close> (\<^verbatim>\<open>undefined\<close> when the location has fewer than three
  segments) and \<^verbatim>\<open>Key\<close>.\<close>

definition s3Params :: "string \<Rightarrow> string option \<times> string" where
  "s3Params location =
     (let segments = split_on (CHR ''/'') location
      in (if 2 < length segments then Some (segments ! 2) else None,
          join ''/'' (drop 3 segments)))"

datatype items =
    TypedItems "jsval obj list"
  | RawRows "datum list list"
  | TextLines "string list"
  | NonDMLItems "string obj list"

record fetch_result =
  items :: items
  nextToken :: "string option"
  metadata :: "(string \<times> string) list option"

text \<open>\<^verbatim>\<open>Boolean(params.config.NextToken)\<close>.\<close>

definition truthy :: "string option \<Rightarrow> bool" where
  "truthy t = (case t of None \<Rightarrow> False | Some s \<Rightarrow> s \<noteq> [])"

text \<open>The paginated branch, after the engine answered.\<close>

definition paginated_result ::
  "config \<Rightarrow> nat \<Rightarrow> ctx \<Rightarrow> query_results \<Rightarrow> (rejection, fetch_result) settled" where
  "paginated_result cfg paginationFactor c queryResults =
     (if formatJson cfg then
        (case cleanUpPaginatedDML queryResults paginationFactor c of
           Resolved formattedArray \<Rightarrow>
             Resolved \<lparr>items = TypedItems formattedArray,
                       nextToken = NextToken queryResults,
                       metadata = Some (ColumnInfo queryResults)\<rparr>
         | Rejected e \<Rightarrow> Rejected e
         | Pending \<Rightarrow> Pending)
      else
        Resolved \<lparr>items = RawRows (Rows queryResults),
                  nextToken = NextToken queryResults,
                  metadata = Some (ColumnInfo queryResults)\<rparr>)"

text \<open>The branch that reads the whole result from the store, after the store answered;
  \<open>metadataQueryPromise\<close> is \<^const>\<open>None\<close> for \<^verbatim>\<open>null\<close>.\<close>

definition full_result ::
  "env \<Rightarrow> config \<Rightarrow> ctx \<Rightarrow> query_results answer option \<Rightarrow> string \<Rightarrow> (rejection, fetch_result) settled" where
  "full_result E cfg c metadataQueryPromise input =
     (case (if formatJson cfg
            then (case cleanUpDML E input (ignoreEmpty cfg) c of
                    Resolved cleanJson \<Rightarrow> Resolved (TypedItems cleanJson)
                  | Rejected e \<Rightarrow> Rejected e
                  | Pending \<Rightarrow> Pending)
            else Resolved (TextLines (getRawResultsFromS3 E input))) of
        Resolved its \<Rightarrow>
          (if includeMetadata cfg then
             (case metadataQueryPromise of
                None \<Rightarrow> Rejected (Thrown TypeError)
              | Some (Inl err) \<Rightarrow> Rejected (Fault err)
              | Some (Inr m) \<Rightarrow>
                  Resolved \<lparr>items = its, nextToken = None, metadata = Some (ColumnInfo m)\<rparr>)
           else Resolved \<lparr>items = its, nextToken = None, metadata = None\<rparr>)
      | Rejected e \<Rightarrow> Rejected e
      | Pending \<Rightarrow> Pending)"

text \<open>\<^verbatim>\<open>getQueryResultsFromS3\<close>: the commands it sends, in order, and the state of the
  promise it returns.\<close>

definition getQueryResultsFromS3 ::
  "env \<Rightarrow> params \<Rightarrow> ctx \<Rightarrow> request list \<times> (rejection, fetch_result) settled" where
  "getQueryResultsFromS3 E ps c =
     (let Bucket = fst (s3Params (s3Output ps));
          Key = snd (s3Params (s3Output ps));
          cfg = config ps
      in if statementType ps = ''UTILITY'' \<or> statementType ps = ''DDL'' then
           ([GetObject Bucket Key],
            (case s3_GetObject E Bucket Key of
               Inl err \<Rightarrow> Rejected (Fault err)
             | Inr input \<Rightarrow>
                 Resolved \<lparr>items = NonDMLItems (cleanUpNonDML E input),
                           nextToken = None, metadata = None\<rparr>))
         else if pagination cfg \<noteq> 0 then
           (let paginationFactor = (if truthy (cfg_NextToken cfg) then 0 else 1 :: nat);
                MaxResults = pagination cfg + paginationFactor
            in ([GetQueryResults MaxResults (cfg_NextToken cfg)],
                (case athena_GetQueryResults E MaxResults (cfg_NextToken cfg) of
                   Inl err \<Rightarrow> Rejected (Fault err)
                 | Inr queryResults \<Rightarrow> paginated_result cfg paginationFactor c queryResults)))
         else
           (let cached = s3Metadata c;
                fresh = (cached = None \<and> includeMetadata cfg);
                metadataQueryPromise =
                  (if cached \<noteq> None then cached
                   else if includeMetadata cfg then Some (athena_GetQueryResults E 1 None)
                   else None)
            in ((if fresh then [GetQueryResults 1 None] else []) @ [GetObject Bucket Key],
                (case s3_GetObject E Bucket Key of
                   Inl err \<Rightarrow> Rejected (Fault err)
                 | Inr input \<Rightarrow> full_result E cfg c metadataQueryPromise input))))"

section \<open>An engine that pages through a stored result\<close>

text \<open>
  The retriever relies on the engine for what a page holds. The statements about
  consecutive pages are made for an engine that keeps the rows of a result (the header row
  first), answers a page request with the next \<^verbatim>\<open>MaxResults\<close> rows from its cursor, and
  hands out a cursor while rows are left. A cursor is an opaque non-empty string to the
  retriever; this engine writes the offset of the next row in unary.
\<close>

definition token_of :: "nat \<Rightarrow> string" where
  "token_of n = replicate n (CHR ''I'')"

definition offset_of :: "string option \<Rightarrow> nat" where
  "offset_of t = (case t of None \<Rightarrow> 0 | Some s \<Rightarrow> length s)"

definition paging_engine ::
  "datum list list \<Rightarrow> (string \<times> string) list \<Rightarrow> nat \<Rightarrow> string option \<Rightarrow> query_results answer" where
  "paging_engine stored columns MaxResults t =
     Inr \<lparr>Rows = take MaxResults (drop (offset_of t) stored),
          ColumnInfo = columns,
          NextToken = (if offset_of t + MaxResults < length stored
                       then Some (token_of (offset_of t + MaxResults)) else None)\<rparr>"

section \<open>Notions the statements use\<close>



text \<open>A status that ends no poll loop.\<close>

definition non_terminal :: "execution_status \<Rightarrow> bool" where
  "non_terminal st = (State st \<noteq> ''SUCCEEDED'' \<and> State st \<noteq> ''FAILED'')"

text \<open>An answer after which the poller polls again: a status that is not terminal, or a
  transient fault.\<close>

definition keeps_polling :: "execution_status answer \<Rightarrow> bool" where
  "keeps_polling a =
     (case a of
        Inl err \<Rightarrow> isCommonAthenaError (err_code err)
      | Inr st \<Rightarrow> non_terminal st)"

text \<open>The attempts of a launcher that met \<open>n\<close> transient faults, up to the next
  command.\<close>

definition retried :: "nat \<Rightarrow> event list" where
  "retried n = concat (replicate n [Send StartQueryExecution, Wait 2000])"

text \<open>
  The bucket and key as the specification words them, for comparison with \<^const>\<open>s3Params\<close>:
  the first two segments of the location form the bucket, the remainder forms the key.
\<close>

definition s3Params_as_specified :: "string \<Rightarrow> string option \<times> string" where
  "s3Params_as_specified location =
     (let segments = split_on (CHR ''/'') location
      in (Some (join ''/'' (take 2 segments)), join ''/'' (drop 2 segments)))"

section \<open>The object model\<close>











section \<open>Rows and records\<close>












text \<open>The page is typed row by row.\<close>

lemma formattedArray_loop_iff:
  "formattedArray_loop columnNames dataTypes rows formattedArray = Inr out \<longleftrightarrow>
   (\<exists>outs. out = formattedArray @ outs \<and>
      list_all2 (\<lambda>row t. addDataType (rowObject_loop columnNames 0 row []) dataTypes = Inr t) rows outs)"
proof (induction rows arbitrary: formattedArray)
  case Nil
  then show ?case by auto
next
  case (Cons r rows)
  show ?case
  proof (cases "addDataType (rowObject_loop columnNames 0 r []) dataTypes")
    case (Inl e)
    then show ?thesis by (auto simp: list_all2_Cons1)
  next
    case (Inr t)
    then show ?thesis using Cons.IH [of "formattedArray @ [t]"]
      by (auto simp: list_all2_Cons1)
  qed
qed

section \<open>Materialization of single rows\<close>

text \<open>
  C2. For the schema \<^verbatim>\<open>{a: bigint, b: boolean, c: varchar}\<close> and the raw row
  \<^verbatim>\<open>{a: "42", b: "TRUE", c: ""}\<close>, \<^verbatim>\<open>addDataType\<close> returns exactly
  \<^verbatim>\<open>{a: 42n, b: true, c: null}\<close>: the arbitrary-precision integer 42, the boolean true
  and null, under the keys of the row and in its order.
\<close>

theorem addDataType_bigint_boolean_varchar:
  "addDataType [(''a'', ''42''), (''b'', ''TRUE''), (''c'', '''')]
               [(''a'', ''bigint''), (''b'', ''boolean''), (''c'', ''varchar'')]
   = Inr [(''a'', JBigInt 42), (''b'', JBool True), (''c'', JNull)]"
  by code_simp

section \<open>Boolean cells\<close>









section \<open>Numeric cells\<close>


















section \<open>Empty and absent cells\<close>




section \<open>Paginated, typed retrieval\<close>

lemma formattedArray_loop_slice:
  assumes "formattedArray_loop columnNames dataTypes rows [] = Inr typed"
  shows "formattedArray_loop columnNames dataTypes (take n (drop m rows)) [] = Inr (take n (drop m typed))"
    and "length typed = length rows"
proof -
  let ?R = "\<lambda>row t. addDataType (rowObject_loop columnNames 0 row []) dataTypes = Inr t"
  from assms have all: "list_all2 ?R rows typed" by (simp add: formattedArray_loop_iff)
  then show "length typed = length rows" by (simp add: list_all2_lengthD)
  from all have "list_all2 ?R (take n (drop m rows)) (take n (drop m typed))"
    by (intro list_all2_takeI list_all2_dropI)
  then show "formattedArray_loop columnNames dataTypes (take n (drop m rows)) [] = Inr (take n (drop m typed))"
    by (simp add: formattedArray_loop_iff)
qed

lemma cleanUpPaginatedDML_slice:
  assumes "cleanUpPaginatedDML \<lparr>Rows = data, ColumnInfo = columns, NextToken = t\<rparr> 0 c = Resolved typed"
  shows "cleanUpPaginatedDML \<lparr>Rows = take n (drop m data), ColumnInfo = columns', NextToken = t'\<rparr> 0 c
         = Resolved (take n (drop m typed))"
    and "length typed = length data"
proof -
  from assms obtain dt where dt: "getDataTypes c = Resolved dt"
    and run: "formattedArray_loop (rev (map fst dt)) dt data [] = Inr typed"
    by (auto simp: cleanUpPaginatedDML_def split: settled.splits sum.splits)
  show "length typed = length data" using formattedArray_loop_slice(2) [OF run] .
  show "cleanUpPaginatedDML \<lparr>Rows = take n (drop m data), ColumnInfo = columns', NextToken = t'\<rparr> 0 c
         = Resolved (take n (drop m typed))"
    using dt formattedArray_loop_slice(1) [OF run] by (simp add: cleanUpPaginatedDML_def)
qed

lemma truthy_token_of: "truthy (Some (token_of n)) = (0 < n)"
  by (simp add: truthy_def token_of_def)

lemma offset_of_token_of: "offset_of (Some (token_of n)) = n"
  by (simp add: offset_of_def token_of_def)

text \<open>
  C1, as the code has it, over the paging engine and for a result whose data rows all
  materialize (\<open>typed\<close> are their typed records, in order). Without a cursor the
  retriever asks for \<open>P + 1\<close> rows, leaves the header row out and returns the typed
  records of the first \<open>P\<close> data rows, or of all of them when fewer than \<open>P\<close> exist,
  with the engine's next cursor. With a cursor the engine handed out it asks for exactly
  \<open>P\<close> rows, leaves none out and returns the typed records of the next \<open>P\<close> rows
  from the cursor (fewer at the end of the result). Consecutive pages are consecutive slices
  of \<open>typed\<close>: no row is duplicated or skipped.
\<close>

theorem paginated_typed_pages:
  assumes "0 < P"
    and "statementType ps \<noteq> ''UTILITY''" and "statementType ps \<noteq> ''DDL''"
    and "pagination (config ps) = P" and "formatJson (config ps)"
    and "athena_GetQueryResults E = paging_engine (header # data) columns"
    and "cleanUpPaginatedDML \<lparr>Rows = data, ColumnInfo = columns, NextToken = None\<rparr> 0 c = Resolved typed"
  shows "getQueryResultsFromS3 E (ps\<lparr>config := (config ps)\<lparr>cfg_NextToken := None\<rparr>\<rparr>) c
         = ([GetQueryResults (P + 1) None],
            Resolved \<lparr>items = TypedItems (take P typed),
                      nextToken = (if P < length data then Some (token_of (P + 1)) else None),
                      metadata = Some columns\<rparr>)
       \<and> (0 < n \<longrightarrow>
           getQueryResultsFromS3 E (ps\<lparr>config := (config ps)\<lparr>cfg_NextToken := Some (token_of n)\<rparr>\<rparr>) c
           = ([GetQueryResults P (Some (token_of n))],
              Resolved \<lparr>items = TypedItems (take P (drop (n - 1) typed)),
                        nextToken = (if n - 1 + P < length data then Some (token_of (n + P)) else None),
                        metadata = Some columns\<rparr>))
       \<and> length typed = length data"
proof (intro conjI impI)
  note sl = cleanUpPaginatedDML_slice [OF assms(7)]
  show "length typed = length data" by (rule sl(2))
  have first: "cleanUpPaginatedDML \<lparr>Rows = take (P + 1) (header # data), ColumnInfo = columns, NextToken = t\<rparr> 1 c
        = Resolved (take P typed)" for t
    using sl(1) [of P 0 columns t] by (simp add: cleanUpPaginatedDML_def split: settled.splits)
  show "getQueryResultsFromS3 E (ps\<lparr>config := (config ps)\<lparr>cfg_NextToken := None\<rparr>\<rparr>) c
         = ([GetQueryResults (P + 1) None],
            Resolved \<lparr>items = TypedItems (take P typed),
                      nextToken = (if P < length data then Some (token_of (P + 1)) else None),
                      metadata = Some columns\<rparr>)"
    using assms(1-6) first
    by (simp add: getQueryResultsFromS3_def Let_def truthy_def paging_engine_def offset_of_def
          paginated_result_def)
next
  assume n: "0 < n"
  note sl = cleanUpPaginatedDML_slice [OF assms(7)]
  have dr: "drop n (header # data) = drop (n - 1) data" using n by (cases n) simp_all
  have later: "cleanUpPaginatedDML \<lparr>Rows = take P (drop n (header # data)), ColumnInfo = columns, NextToken = t\<rparr> 0 c
        = Resolved (take P (drop (n - 1) typed))" for t
    unfolding dr using sl(1) [of P "n - 1" columns t] .
  have lt: "(n + P < Suc (length data)) = (n - 1 + P < length data)" using n by arith
  show "getQueryResultsFromS3 E (ps\<lparr>config := (config ps)\<lparr>cfg_NextToken := Some (token_of n)\<rparr>\<rparr>) c
           = ([GetQueryResults P (Some (token_of n))],
              Resolved \<lparr>items = TypedItems (take P (drop (n - 1) typed)),
                        nextToken = (if n - 1 + P < length data then Some (token_of (n + P)) else None),
                        metadata = Some columns\<rparr>)"
    using assms(1-6) n later lt
    by (simp add: getQueryResultsFromS3_def Let_def truthy_token_of offset_of_token_of paging_engine_def
          paginated_result_def del: drop_Suc_Cons)
qed

theorem paginated_typed_pages_witness:
  "getQueryResultsFromS3
     \<lparr>athena_GetQueryResults = paging_engine
        [[Some ''id'', Some ''name''], [Some ''1'', Some ''a''], [Some ''2'', Some ''b''],
         [Some ''3'', Some ''c''], [Some ''4'', Some ''d''], [Some ''5'', Some ''e'']]
        [(''id'', ''bigint''), (''name'', ''varchar'')],
      s3_GetObject = (\<lambda>b k. Inr []), readline = (\<lambda>s. []), csvtojson = (\<lambda>i s. [])\<rparr>
     \<lparr>s3Output = ''s3://bucket/q.csv'', statementType = ''DML'',
      config = \<lparr>pagination = 2, cfg_NextToken = None, formatJson = True,
                includeMetadata = False, ignoreEmpty = False\<rparr>\<rparr>
     \<lparr>s3Metadata = Some (Inr \<lparr>Rows = [[Some ''id'', Some ''name'']],
                                 ColumnInfo = [(''id'', ''bigint''), (''name'', ''varchar'')],
                                 NextToken = Some ''I''\<rparr>)\<rparr>
   = ([GetQueryResults 3 None],
      Resolved \<lparr>items = TypedItems [[(''id'', JBigInt 1), (''name'', JString ''a'')],
                                    [(''id'', JBigInt 2), (''name'', JString ''b'')]],
                nextToken = Some ''III'',
                metadata = Some [(''id'', ''bigint''), (''name'', ''varchar'')]\<rparr>)
   \<and> getQueryResultsFromS3
     \<lparr>athena_GetQueryResults = paging_engine
        [[Some ''id'', Some ''name''], [Some ''1'', Some ''a''], [Some ''2'', Some ''b''],
         [Some ''3'', Some ''c''], [Some ''4'', Some ''d''], [Some ''5'', Some ''e'']]
        [(''id'', ''bigint''), (''name'', ''varchar'')],
      s3_GetObject = (\<lambda>b k. Inr []), readline = (\<lambda>s. []), csvtojson = (\<lambda>i s. [])\<rparr>
     \<lparr>s3Output = ''s3://bucket/q.csv'', statementType = ''DML'',
      config = \<lparr>pagination = 2, cfg_NextToken = Some ''III'', formatJson = True,
                includeMetadata = False, ignoreEmpty = False\<rparr>\<rparr>
     \<lparr>s3Metadata = Some (Inr \<lparr>Rows = [[Some ''id'', Some ''name'']],
                                 ColumnInfo = [(''id'', ''bigint''), (''name'', ''varchar'')],
                                 NextToken = Some ''I''\<rparr>)\<rparr>
   = ([GetQueryResults 2 (Some ''III'')],
      Resolved \<lparr>items = TypedItems [[(''id'', JBigInt 3), (''name'', JString ''c'')],
                                    [(''id'', JBigInt 4), (''name'', JString ''d'')]],
                nextToken = Some ''IIIII'',
                metadata = Some [(''id'', ''bigint''), (''name'', ''varchar'')]\<rparr>)"
proof -
  let ?header = "[Some ''id'', Some ''name'']"
  let ?data = "[[Some ''1'', Some ''a''], [Some ''2'', Some ''b''],
         [Some ''3'', Some ''c''], [Some ''4'', Some ''d''], [Some ''5'', Some ''e'']]"
  let ?cols = "[(''id'', ''bigint''), (''name'', ''varchar'')]"
  let ?E = "\<lparr>athena_GetQueryResults = paging_engine (?header # ?data) ?cols,
      s3_GetObject = (\<lambda>b k. Inr []), readline = (\<lambda>s. []), csvtojson = (\<lambda>i s. [])\<rparr>"
  let ?ps = "\<lparr>s3Output = ''s3://bucket/q.csv'', statementType = ''DML'',
      config = \<lparr>pagination = 2, cfg_NextToken = None, formatJson = True,
                includeMetadata = False, ignoreEmpty = False\<rparr>\<rparr>"
  let ?c = "\<lparr>s3Metadata = Some (Inr \<lparr>Rows = [?header], ColumnInfo = ?cols, NextToken = Some ''I''\<rparr>)\<rparr>"
  let ?typed = "[[(''id'', JBigInt 1), (''name'', JString ''a'')], [(''id'', JBigInt 2), (''name'', JString ''b'')],
     [(''id'', JBigInt 3), (''name'', JString ''c'')], [(''id'', JBigInt 4), (''name'', JString ''d'')],
     [(''id'', JBigInt 5), (''name'', JString ''e'')]]"
  have h1: "(0::nat) < 2" by simp
  have h2: "statementType ?ps \<noteq> ''UTILITY''" and h3: "statementType ?ps \<noteq> ''DDL''" by simp_all
  have h4: "pagination (config ?ps) = 2" and h5: "formatJson (config ?ps)" by simp_all
  have h6: "athena_GetQueryResults ?E = paging_engine (?header # ?data) ?cols" by simp
  have h7: "cleanUpPaginatedDML \<lparr>Rows = ?data, ColumnInfo = ?cols, NextToken = None\<rparr> 0 ?c = Resolved ?typed"
    by code_simp
  have tk: "token_of (2 + 1) = ''III''" "token_of 3 = ''III''" "token_of 5 = ''IIIII''"
    by code_simp+
  note t = paginated_typed_pages [OF h1 h2 h3 h4 h5 h6 h7, of 3]
  from t show ?thesis by (simp add: tk)
qed

text \<open>
  C1 as stated fails on a result shorter than a page: with page size 2 and one data row the
  first page holds one typed record, not exactly 2.
\<close>

theorem short_result_counterexample:
  "getQueryResultsFromS3
     \<lparr>athena_GetQueryResults = paging_engine [[Some ''name''], [Some ''a'']] [(''name'', ''varchar'')],
      s3_GetObject = (\<lambda>b k. Inr []), readline = (\<lambda>s. []), csvtojson = (\<lambda>i s. [])\<rparr>
     \<lparr>s3Output = ''s3://bucket/q.csv'', statementType = ''DML'',
      config = \<lparr>pagination = 2, cfg_NextToken = None, formatJson = True,
                includeMetadata = False, ignoreEmpty = False\<rparr>\<rparr>
     \<lparr>s3Metadata = Some (Inr \<lparr>Rows = [[Some ''name'']], ColumnInfo = [(''name'', ''varchar'')],
                                 NextToken = Some ''I''\<rparr>)\<rparr>
   = ([GetQueryResults 3 None],
      Resolved \<lparr>items = TypedItems [[(''name'', JString ''a'')]],
                nextToken = None,
                metadata = Some [(''name'', ''varchar'')]\<rparr>)
   \<and> length [[(''name'', JString ''a'')]] \<noteq> (2 :: nat)"
  by code_simp

section \<open>The launcher\<close>

lemma startQueryExecutionRecursively_transient:
  assumes "list_all (\<lambda>err. isCommonAthenaError (err_code err)) faults"
  shows "startQueryExecutionRecursively (map Inl faults @ answers)
       = (retried (length faults) @ fst (startQueryExecutionRecursively answers),
          snd (startQueryExecutionRecursively answers))"
  using assms
  by (induction faults) (auto simp: retried_def split: prod.splits)

text \<open>
  C6. \<^verbatim>\<open>isCommonAthenaError\<close> holds of exactly the four codes
  \<^verbatim>\<open>TooManyRequestsException\<close>, \<^verbatim>\<open>ThrottlingException\<close>, \<^verbatim>\<open>NetworkingError\<close> and
  \<^verbatim>\<open>UnknownEndpoint\<close>. For every finite sequence of transient faults followed by a
  successful submission, \<^verbatim>\<open>startQueryExecution\<close> sets a timer of 2000 ms after each fault,
  sends the command again, and resolves with the execution identifier of the success,
  however long the sequence is. On the first fault that is not transient it rejects with
  that fault, and the command it has just sent is its last.
\<close>

theorem submit_retries_transient_faults:
  "isCommonAthenaError code
     = (code \<in> set (map Some [''TooManyRequestsException'', ''ThrottlingException'',
                               ''NetworkingError'', ''UnknownEndpoint'']))
   \<and> (list_all (\<lambda>err. isCommonAthenaError (err_code err)) faults \<longrightarrow>
        startQueryExecution (map Inl faults @ Inr QueryExecutionId # answers)
          = (retried (length faults) @ [Send StartQueryExecution], Resolved QueryExecutionId)
      \<and> waits (retried (length faults)) = replicate (length faults) 2000
      \<and> (\<not> isCommonAthenaError (err_code err) \<longrightarrow>
           startQueryExecution (map Inl faults @ Inl err # answers)
             = (retried (length faults) @ [Send StartQueryExecution], Rejected err)))"
proof -
  have w: "waits (retried n) = replicate n 2000" for n
    by (induction n) (simp_all add: retried_def)
  show ?thesis
    by (auto simp: isCommonAthenaError_def startQueryExecution_def
          startQueryExecutionRecursively_transient w)
qed

theorem submit_retries_transient_faults_witness:
  "startQueryExecution
     [Inl (SdkError (Some ''ThrottlingException'') ''Rate exceeded''),
      Inl (SdkError (Some ''NetworkingError'') ''socket hang up''),
      Inr ''query-1'']
   = ([Send StartQueryExecution, Wait 2000, Send StartQueryExecution, Wait 2000, Send StartQueryExecution],
      Resolved ''query-1'')
   \<and> startQueryExecution
     [Inl (SdkError (Some ''ThrottlingException'') ''Rate exceeded''),
      Inl (SdkError (Some ''NetworkingError'') ''socket hang up''),
      Inl (SdkError (Some ''InvalidRequestException'') ''line 1:1: mismatched input''),
      Inr ''query-1'']
   = ([Send StartQueryExecution, Wait 2000, Send StartQueryExecution, Wait 2000, Send StartQueryExecution],
      Rejected (SdkError (Some ''InvalidRequestException'') ''line 1:1: mismatched input''))"
proof -
  let ?faults = "[SdkError (Some ''ThrottlingException'') ''Rate exceeded'',
                  SdkError (Some ''NetworkingError'') ''socket hang up'']"
  let ?err = "SdkError (Some ''InvalidRequestException'') ''line 1:1: mismatched input''"
  have h1: "list_all (\<lambda>err. isCommonAthenaError (err_code err)) ?faults"
    by (simp add: isCommonAthenaError_def)
  have h2: "\<not> isCommonAthenaError (err_code ?err)" by (simp add: isCommonAthenaError_def)
  have r: "retried (length ?faults) = [Send StartQueryExecution, Wait 2000, Send StartQueryExecution, Wait 2000]"
    by (simp add: retried_def)
  note t1 = submit_retries_transient_faults [of None ?faults "''query-1''" "[]" ?err]
  note t2 = submit_retries_transient_faults [of None ?faults "''query-1''" "[Inr ''query-1'']" ?err]
  from t1 h1 have a: "startQueryExecution (map Inl ?faults @ [Inr ''query-1''])
      = (retried (length ?faults) @ [Send StartQueryExecution], Resolved ''query-1'')" by blast
  from t2 h1 h2 have b: "startQueryExecution (map Inl ?faults @ Inl ?err # [Inr ''query-1''])
      = (retried (length ?faults) @ [Send StartQueryExecution], Rejected ?err)" by blast
  from a b show ?thesis unfolding r by simp
qed

section \<open>The poller\<close>

lemma events_nonempty: "events (keepCheckingRecursively cfg md r c answers) \<noteq> []"
  by (induction cfg md r c answers rule: keepCheckingRecursively.induct) (simp_all add: Let_def)

lemma keepCheckingRecursively_failed:
  assumes "list_all keeps_polling before" "State st = ''FAILED''"
  shows "result (keepCheckingRecursively cfg md r c (before @ Inr st # answers)) = Rejected (Reason (StateChangeReason st))
       \<and> length (sends (events (keepCheckingRecursively cfg md r c (before @ Inr st # answers)))) = length before + 1
       \<and> events (keepCheckingRecursively cfg md r c (before @ Inr st # answers))
         = events (keepCheckingRecursively cfg md r c (before @ [Inr st]))
       \<and> last (events (keepCheckingRecursively cfg md r c (before @ Inr st # answers))) = Send GetQueryExecution"
  using assms
proof (induction before arbitrary: r)
  case Nil
  then show ?case by simp
next
  case (Cons a before)
  from Cons.prems have rest: "list_all keeps_polling before" by simp
  note IH = Cons.IH [OF rest Cons.prems(2)]
  show ?case
  proof (cases a)
    case (Inl err)
    with Cons.prems have "isCommonAthenaError (err_code err)" by (simp add: keeps_polling_def)
    with Inl IH [of 2000] show ?thesis by (auto simp: Let_def events_nonempty)
  next
    case (Inr s)
    with Cons.prems have "State s \<noteq> ''SUCCEEDED''" "State s \<noteq> ''FAILED''"
      by (simp_all add: keeps_polling_def non_terminal_def)
    with Inr IH [of r] show ?thesis by (auto simp: Let_def events_nonempty)
  qed
qed

text \<open>
  C5. When the engine reports \<^verbatim>\<open>FAILED\<close>, after any number of polls that went on (statuses
  that are not terminal, transient faults), \<^verbatim>\<open>checkIfExecutionCompleted\<close> rejects with the
  engine's \<^verbatim>\<open>StateChangeReason\<close> as it is. The poll that saw \<^verbatim>\<open>FAILED\<close> is the last
  command of the run: no timer is set after it and the answers the engine would give later
  are never asked for.
\<close>

theorem failed_status_rejects_with_reason:
  assumes "list_all keeps_polling before" and "State st = ''FAILED''"
  shows "result (checkIfExecutionCompleted cfg md c (before @ Inr st # answers))
           = Rejected (Reason (StateChangeReason st))
       \<and> length (sends (events (checkIfExecutionCompleted cfg md c (before @ Inr st # answers))))
           = length before + 1
       \<and> events (checkIfExecutionCompleted cfg md c (before @ Inr st # answers))
           = events (checkIfExecutionCompleted cfg md c (before @ [Inr st]))
       \<and> last (events (checkIfExecutionCompleted cfg md c (before @ Inr st # answers)))
           = Send GetQueryExecution"
  unfolding checkIfExecutionCompleted_def
  using assms by (rule keepCheckingRecursively_failed)

theorem failed_status_rejects_with_reason_witness:
  "checkIfExecutionCompleted 200 (Inl (SdkError None [])) \<lparr>s3Metadata = None\<rparr>
     [Inr \<lparr>State = ''QUEUED'', StateChangeReason = None\<rparr>,
      Inr \<lparr>State = ''FAILED'', StateChangeReason = Some ''SYNTAX_ERROR: line 1:8''\<rparr>,
      Inr \<lparr>State = ''SUCCEEDED'', StateChangeReason = None\<rparr>]
   = \<lparr>events = [Send GetQueryExecution, Wait 200, Send GetQueryExecution],
      result = Rejected (Reason (Some ''SYNTAX_ERROR: line 1:8'')),
      retry_after = 200,
      ctx_after = \<lparr>s3Metadata = None\<rparr>\<rparr>
   \<and> result (checkIfExecutionCompleted 200 (Inl (SdkError None [])) \<lparr>s3Metadata = None\<rparr>
       [Inr \<lparr>State = ''FAILED'', StateChangeReason = Some ''SYNTAX_ERROR: line 1:8''\<rparr>])
     = Rejected (Reason (Some ''SYNTAX_ERROR: line 1:8''))
   \<and> length (sends (events (checkIfExecutionCompleted 200 (Inl (SdkError None [])) \<lparr>s3Metadata = None\<rparr>
       [Inr \<lparr>State = ''FAILED'', StateChangeReason = Some ''SYNTAX_ERROR: line 1:8''\<rparr>]))) = 1"
proof -
  let ?st = "\<lparr>State = ''FAILED'', StateChangeReason = Some ''SYNTAX_ERROR: line 1:8''\<rparr>"
  have h1: "list_all keeps_polling []" by simp
  have h2: "State ?st = ''FAILED''" by simp
  note t = failed_status_rejects_with_reason [OF h1 h2, of 200 "Inl (SdkError None [])" "\<lparr>s3Metadata = None\<rparr>" "[]"]
  have full: "checkIfExecutionCompleted 200 (Inl (SdkError None [])) \<lparr>s3Metadata = None\<rparr>
     [Inr \<lparr>State = ''QUEUED'', StateChangeReason = None\<rparr>, Inr ?st,
      Inr \<lparr>State = ''SUCCEEDED'', StateChangeReason = None\<rparr>]
   = \<lparr>events = [Send GetQueryExecution, Wait 200, Send GetQueryExecution],
      result = Rejected (Reason (Some ''SYNTAX_ERROR: line 1:8'')),
      retry_after = 200,
      ctx_after = \<lparr>s3Metadata = None\<rparr>\<rparr>"
    by (simp add: checkIfExecutionCompleted_def Let_def)
  from t full show ?thesis by simp
qed

lemma waits_after_fault:
  "list_all (\<lambda>w. w = 2000) (waits (events (keepCheckingRecursively cfg md 2000 c answers)))"
  by (induction cfg md "2000::nat" c answers rule: keepCheckingRecursively.induct)
     (simp_all add: Let_def)

lemma waits_before_fault:
  assumes "list_all non_terminal before"
  shows "waits (events (keepCheckingRecursively cfg md r c (map Inr before @ answers)))
       = replicate (length before) r @ waits (events (keepCheckingRecursively cfg md r c answers))"
  using assms by (induction before) (simp_all add: non_terminal_def Let_def)

text \<open>
  C4, as the code has it. Polls before any fault wait the caller-configured interval.
  A transient fault sets the variable \<^verbatim>\<open>retry\<close> to 2000: the poll that met the fault and
  every later poll of that run wait 2000 ms, also the polls that follow a real status that
  is not terminal. \<^verbatim>\<open>config.retry\<close> itself is never assigned; the variable is set back
  to it on \<^verbatim>\<open>SUCCEEDED\<close> only, when the run ends.
\<close>

lemma retry_reset_on_success:
  "result (keepCheckingRecursively cfg md r c answers) = Resolved st \<Longrightarrow>
   retry_after (keepCheckingRecursively cfg md r c answers) = cfg"
  by (induction cfg md r c answers rule: keepCheckingRecursively.induct)
     (auto simp: Let_def split: if_splits)

theorem transient_fault_interval_sticks:
  assumes "isCommonAthenaError (err_code err)" and "list_all non_terminal before"
  shows "waits (events (checkIfExecutionCompleted cfg md c (map Inr before @ Inl err # answers)))
           = replicate (length before) cfg @ 2000 # waits (events (keepCheckingRecursively cfg md 2000 c answers))
       \<and> list_all (\<lambda>w. w = 2000) (waits (events (keepCheckingRecursively cfg md 2000 c answers)))
       \<and> (list_all non_terminal after \<longrightarrow>
            waits (events (checkIfExecutionCompleted cfg md c (map Inr before @ Inl err # map Inr after)))
              = replicate (length before) cfg @ replicate (Suc (length after)) 2000)
       \<and> (result (checkIfExecutionCompleted cfg md c (map Inr before @ Inl err # answers)) = Resolved st \<longrightarrow>
            retry_after (checkIfExecutionCompleted cfg md c (map Inr before @ Inl err # answers)) = cfg)"
proof -
  have r: "retry_after (checkIfExecutionCompleted cfg md c script) = cfg"
    if "result (checkIfExecutionCompleted cfg md c script) = Resolved st" for script
    using that unfolding checkIfExecutionCompleted_def by (rule retry_reset_on_success)
  have a: "waits (events (checkIfExecutionCompleted cfg md c (map Inr before @ Inl err # answers)))
           = replicate (length before) cfg @ 2000 # waits (events (keepCheckingRecursively cfg md 2000 c answers))"
    for answers
    using assms by (simp add: checkIfExecutionCompleted_def waits_before_fault Let_def)
  have b: "waits (events (keepCheckingRecursively cfg md 2000 c (map Inr after)))
           = replicate (length after) 2000" if "list_all non_terminal after"
    using waits_before_fault [OF that, of cfg md 2000 c "[]"] by simp
  from a b r waits_after_fault show ?thesis by simp
qed

theorem transient_fault_interval_sticks_witness:
  "waits (events (checkIfExecutionCompleted 500 (Inl (SdkError None [])) \<lparr>s3Metadata = None\<rparr>
      [Inr \<lparr>State = ''QUEUED'', StateChangeReason = None\<rparr>,
       Inl (SdkError (Some ''ThrottlingException'') ''Rate exceeded''),
       Inr \<lparr>State = ''RUNNING'', StateChangeReason = None\<rparr>,
       Inr \<lparr>State = ''RUNNING'', StateChangeReason = None\<rparr>]))
   = [500, 2000, 2000, 2000]"
proof -
  let ?err = "SdkError (Some ''ThrottlingException'') ''Rate exceeded''"
  let ?before = "[\<lparr>State = ''QUEUED'', StateChangeReason = None\<rparr>]"
  let ?after = "[\<lparr>State = ''RUNNING'', StateChangeReason = None\<rparr>, \<lparr>State = ''RUNNING'', StateChangeReason = None\<rparr>]"
  have h1: "isCommonAthenaError (err_code ?err)" by (simp add: isCommonAthenaError_def)
  have h2: "list_all non_terminal ?before" by (simp add: non_terminal_def)
  have h3: "list_all non_terminal ?after" by (simp add: non_terminal_def)
  note t = transient_fault_interval_sticks [OF h1 h2, of 500 "Inl (SdkError None [])" "\<lparr>s3Metadata = None\<rparr>" "[]" ?after]
  from t h3 have "waits (events (checkIfExecutionCompleted 500 (Inl (SdkError None [])) \<lparr>s3Metadata = None\<rparr>
      (map Inr ?before @ Inl ?err # map Inr ?after)))
   = replicate (length ?before) 500 @ replicate (Suc (length ?after)) 2000" by blast
  then show ?thesis by (simp add: numeral_2_eq_2)
qed

text \<open>
  C4 as stated fails: after a transient fault the polls that observe \<^verbatim>\<open>RUNNING\<close> wait
  2000 ms, not the configured 500 ms. The third poll comes after a real status was observed,
  and still waits 2000 ms.
\<close>

theorem interval_not_restored_counterexample:
  "waits (events (checkIfExecutionCompleted 500 (Inl (SdkError None [])) \<lparr>s3Metadata = None\<rparr>
      [Inl (SdkError (Some ''ThrottlingException'') ''Rate exceeded''),
       Inr \<lparr>State = ''RUNNING'', StateChangeReason = None\<rparr>,
       Inr \<lparr>State = ''RUNNING'', StateChangeReason = None\<rparr>,
       Inr \<lparr>State = ''SUCCEEDED'', StateChangeReason = None\<rparr>]))
   = [2000, 2000, 2000]
   \<and> [2000, 2000, 2000] ! 2 \<noteq> (500 :: nat)"
  by (simp add: checkIfExecutionCompleted_def isCommonAthenaError_def Let_def)

section \<open>The location of the result in the store\<close>

lemma split_on_nonempty: "split_on sep s \<noteq> []"
  by (induction s) (auto split: list.splits)

lemma split_on_segment:
  "sep \<notin> set w \<Longrightarrow> split_on sep (w @ sep # s) = w # split_on sep s"
  by (induction w) (auto split: list.splits)

lemma join_Cons: "ws \<noteq> [] \<Longrightarrow> join sep (w # ws) = w @ sep @ join sep ws"
  by (cases ws) simp_all

lemma join_split_on: "join [sep] (split_on sep s) = s"
proof (induction s)
  case Nil
  then show ?case by simp
next
  case (Cons c s)
  show ?case
  proof (cases "c = sep")
    case True
    with Cons show ?thesis by (simp add: join_Cons split_on_nonempty)
  next
    case False
    obtain w ws where sp: "split_on sep s = w # ws"
      using split_on_nonempty [of sep s] by (cases "split_on sep s") auto
    with Cons False show ?thesis by (cases ws) simp_all
  qed
qed

text \<open>
  C7, as the code has it. The output location is split at every \<^verbatim>\<open>/\<close>. The first two
  segments (for \<^verbatim>\<open>s3://bucket/key\<close>: the scheme \<^verbatim>\<open>s3:\<close> and the empty segment) are
  skipped, the third segment is the bucket, and the segments after it, joined by \<^verbatim>\<open>/\<close>,
  are the key. These are the bucket and key of the \<^verbatim>\<open>GetObject\<close> command, the last command
  of every retrieval that reads the store.
\<close>

theorem s3Params_third_segment_and_rest:
  assumes "CHR ''/'' \<notin> set scheme" and "CHR ''/'' \<notin> set second" and "CHR ''/'' \<notin> set bucket"
  shows "s3Params (scheme @ ''/'' @ second @ ''/'' @ bucket @ ''/'' @ key) = (Some bucket, key)
       \<and> ((statementType ps = ''UTILITY'' \<or> statementType ps = ''DDL'' \<or> pagination (config ps) = 0)
            \<and> s3Output ps = scheme @ ''/'' @ second @ ''/'' @ bucket @ ''/'' @ key \<longrightarrow>
          last (fst (getQueryResultsFromS3 E ps c)) = GetObject (Some bucket) key)"
proof -
  have sp: "split_on (CHR ''/'') (scheme @ ''/'' @ second @ ''/'' @ bucket @ ''/'' @ key)
          = scheme # second # bucket # split_on (CHR ''/'') key"
    using assms by (simp add: split_on_segment)
  have a: "s3Params (scheme @ ''/'' @ second @ ''/'' @ bucket @ ''/'' @ key) = (Some bucket, key)"
    unfolding s3Params_def sp by (simp add: join_split_on)
  have b: "last (fst (getQueryResultsFromS3 E ps c)) = GetObject (Some bucket) key"
    if "statementType ps = ''UTILITY'' \<or> statementType ps = ''DDL'' \<or> pagination (config ps) = 0"
       "s3Output ps = scheme @ ''/'' @ second @ ''/'' @ bucket @ ''/'' @ key"
    using that a by (auto simp: getQueryResultsFromS3_def Let_def)
  from a b show ?thesis by blast
qed

theorem s3Params_third_segment_and_rest_witness:
  "s3Params ''s3://my-bucket/results/2024/abc.csv'' = (Some ''my-bucket'', ''results/2024/abc.csv'')
   \<and> last (fst (getQueryResultsFromS3
        \<lparr>athena_GetQueryResults = (\<lambda>n t. Inl (SdkError None [])), s3_GetObject = (\<lambda>b k. Inr []),
         readline = (\<lambda>s. []), csvtojson = (\<lambda>i s. [])\<rparr>
        \<lparr>s3Output = ''s3://my-bucket/results/2024/abc.csv'', statementType = ''DDL'',
         config = \<lparr>pagination = 0, cfg_NextToken = None, formatJson = True,
                   includeMetadata = False, ignoreEmpty = False\<rparr>\<rparr>
        \<lparr>s3Metadata = None\<rparr>))
     = GetObject (Some ''my-bucket'') ''results/2024/abc.csv''"
proof -
  let ?E = "\<lparr>athena_GetQueryResults = (\<lambda>n t. Inl (SdkError None [])), s3_GetObject = (\<lambda>b k. Inr []),
         readline = (\<lambda>s. []), csvtojson = (\<lambda>i s. [])\<rparr>"
  let ?ps = "\<lparr>s3Output = ''s3://my-bucket/results/2024/abc.csv'', statementType = ''DDL'',
         config = \<lparr>pagination = 0, cfg_NextToken = None, formatJson = True,
                   includeMetadata = False, ignoreEmpty = False\<rparr>\<rparr>"
  have h1: "CHR ''/'' \<notin> set ''s3:''" and h2: "CHR ''/'' \<notin> set ''''" and h3: "CHR ''/'' \<notin> set ''my-bucket''"
    by simp_all
  have st: "statementType ?ps = ''UTILITY'' \<or> statementType ?ps = ''DDL'' \<or> pagination (config ?ps) = 0"
    by simp
  have loc: "s3Output ?ps = ''s3:'' @ ''/'' @ '''' @ ''/'' @ ''my-bucket'' @ ''/'' @ ''results/2024/abc.csv''"
    by simp
  note t = s3Params_third_segment_and_rest [OF h1 h2 h3, of "''results/2024/abc.csv''" ?ps ?E "\<lparr>s3Metadata = None\<rparr>"]
  from t have a: "s3Params (''s3:'' @ ''/'' @ '''' @ ''/'' @ ''my-bucket'' @ ''/'' @ ''results/2024/abc.csv'')
      = (Some ''my-bucket'', ''results/2024/abc.csv'')" by (rule conjunct1)
  from t st loc have b: "last (fst (getQueryResultsFromS3 ?E ?ps \<lparr>s3Metadata = None\<rparr>))
      = GetObject (Some ''my-bucket'') ''results/2024/abc.csv''" by blast
  from a b show ?thesis by simp
qed

text \<open>
  C7 as stated fails: the first two segments of \<^verbatim>\<open>s3://my-bucket/results/abc.csv\<close> are
  \<^verbatim>\<open>s3:\<close> and the empty string, the bucket is the third, and the key is not all of the
  remainder after two segments. Two locations with the same first two segments have
  different buckets.
\<close>

theorem bucket_not_first_two_segments_counterexample:
  "split_on (CHR ''/'') ''s3://my-bucket/results/abc.csv'' = [''s3:'', '''', ''my-bucket'', ''results'', ''abc.csv'']
   \<and> s3Params ''s3://my-bucket/results/abc.csv'' = (Some ''my-bucket'', ''results/abc.csv'')
   \<and> s3Params_as_specified ''s3://my-bucket/results/abc.csv'' = (Some ''s3:/'', ''my-bucket/results/abc.csv'')
   \<and> s3Params ''s3://my-bucket/results/abc.csv'' \<noteq> s3Params_as_specified ''s3://my-bucket/results/abc.csv''
   \<and> take 2 (split_on (CHR ''/'') ''s3://b1/k'') = take 2 (split_on (CHR ''/'') ''s3://b2/k'')
   \<and> fst (s3Params ''s3://b1/k'') \<noteq> fst (s3Params ''s3://b2/k'')"
  by code_simp

section \<open>The cached schema\<close>








end
